theory Spec2Isabelle
  imports Complex_Main
begin

section \<open>Images and the limit functions of \<open>cross_section_2d.py\<close>\<close>

text \<open>
  An image is a two-dimensional numeric array, held as the list of its rows. A numpy array
  is rectangular; the list of rows of an array of shape \<open>(0, n)\<close> is empty. Numbers are the
  elements of a linear order, so the special values of floating point (nan, the
  infinities) are outside the model. The two limit functions modelled here compare
  numbers and hand them on; neither does arithmetic on them. The third limit function,
  \<open>_percentile_limit\<close>, hands its arguments to \<open>numpy.percentile\<close> and returns what that
  computes in floating point; it has no model here.
\<close>

type_synonym 'a ndarray = "'a list list"

datatype error = ValueError | IndexError | KeyError

text \<open>\<open>im.shape\<close>, unpacked as \<open>numrows, numcols\<close>.\<close>

definition shape :: "'a ndarray \<Rightarrow> nat \<times> nat" where
  "shape im = (length im, (case im of [] \<Rightarrow> 0 | r # _ \<Rightarrow> length r))"

text \<open>
  \<open>np.min\<close> and \<open>np.max\<close> reduce the flattened array with the binary minimum and maximum,
  and raise \<open>ValueError\<close> on an array without elements.
\<close>

definition np_min :: "'a::linorder ndarray \<Rightarrow> error + 'a" where
  "np_min im = (case concat im of [] \<Rightarrow> Inl ValueError | x # xs \<Rightarrow> Inr (fold min xs x))"

definition np_max :: "'a::linorder ndarray \<Rightarrow> error + 'a" where
  "np_max im = (case concat im of [] \<Rightarrow> Inl ValueError | x # xs \<Rightarrow> Inr (fold max xs x))"

text \<open>\<open>_full_range(im, limit_args)\<close>: \<open>return (np.min(im), np.max(im))\<close>.\<close>

definition full_range :: "'a::linorder ndarray \<Rightarrow> 'p \<Rightarrow> error + 'a \<times> 'a" where
  "full_range im limit_args =
     (case np_min im of
        Inl e \<Rightarrow> Inl e
      | Inr lo \<Rightarrow> (case np_max im of Inl e \<Rightarrow> Inl e | Inr hi \<Rightarrow> Inr (lo, hi)))"

text \<open>\<open>_absolute_limit(im, limit_args)\<close>: \<open>return limit_args\<close>.\<close>

definition absolute_limit :: "'a ndarray \<Rightarrow> 'b \<times> 'b \<Rightarrow> error + 'b \<times> 'b" where
  "absolute_limit im limit_args = Inr limit_args"

section \<open>The view: \<open>CrossSection2DView\<close>\<close>

text \<open>
  The state of the view is the record of the attributes that the methods and callbacks of
  the class read and write. Objects of the plotting toolkit appear by what they hold after
  the calls of this code: the axis ranges of the two side panels, the data and visibility
  of the two cut lines, the array and colour limits of the image artist, the \<open>active\<close> flag
  of the cursor widget. The calls that only draw (\<open>restore_region\<close>, \<open>draw_artist\<close>, \<open>blit\<close>,
  \<open>Cursor.onmove\<close>) are recorded in a log, oldest first. Colour map and normalisation stay
  inside the toolkit.

  \<open>_data_dict\<close> and \<open>_key_list\<close> are set by the constructor of the parent class
  \<open>AbstractDataView2D\<close>, whose code is not part of the file; what it stored is a parameter
  of the construction.
\<close>

type_synonym key = string

type_synonym snapshot = nat

datatype axes = Im_ax | Ax_h | Ax_v | Ax_cb

datatype line = Ln_h | Ln_v

record event =
  inaxes :: "axes option"
  xdata :: "real option"
  ydata :: "real option"

datatype canvas_call =
    Restore_region "snapshot option"
  | Draw_artist axes line
  | Blit axes
  | Cursor_onmove event

datatype outcome = Returned | Raised error

record ('a, 'p) view =
  data_dict :: "key \<rightharpoonup> 'a ndarray"
  key_list :: "key list"
  limit_func :: "'a ndarray \<Rightarrow> 'p \<Rightarrow> error + 'a \<times> 'a"
  limit_args :: 'p
  active :: bool
  cur_active :: bool
  imdata :: "'a ndarray"
  im_array :: "'a ndarray"
  im_clim :: "('a \<times> 'a) option"
  ax_h_ylim :: "'a \<times> 'a"
  ax_v_xlim :: "'a \<times> 'a"
  ln_h_ydata :: "'a list"
  ln_v_xdata :: "'a list"
  ln_h_visible :: bool
  ln_v_visible :: bool
  ax_h_bk :: "snapshot option"
  ax_v_bk :: "snapshot option"
  row :: "int option"
  col :: "int option"
  vmin :: "'a option"
  vmax :: "'a option"
  canvas :: "canvas_call list"

text \<open>
  Subscription of a Python list by an integer, \<open>xs[i]\<close>. The positions \<open>-len(xs), ..., -1\<close>
  address the list from its end; any position beyond either end raises \<open>IndexError\<close>.
\<close>

definition getitem :: "'b list \<Rightarrow> int \<Rightarrow> error + 'b" where
  "getitem xs i =
     (if 0 \<le> i \<and> i < int (length xs) then Inr (xs ! nat i)
      else if i < 0 \<and> - int (length xs) \<le> i then Inr (xs ! nat (int (length xs) + i))
      else Inl IndexError)"

text \<open>Python's \<open>int(x)\<close> on a float: truncation towards zero.\<close>

definition py_int :: "real \<Rightarrow> int" where
  "py_int x = (if 0 \<le> x then \<lfloor>x\<rfloor> else \<lceil>x\<rceil>)"

text \<open>\<open>vlim[::-1]\<close> on a sequence of length two.\<close>

definition reversed :: "'a \<times> 'a \<Rightarrow> 'a \<times> 'a" where
  "reversed vlim = (snd vlim, fst vlim)"

subsection \<open>The limit params and Python's equality\<close>

text \<open>
  The limit params are a sequence of two numbers: a list (the default is \<open>[0, 100]\<close>), a
  tuple, or a numpy array, the type that the docstrings name. \<open>py_eq p q\<close> is the truth
  value of \<open>p == q\<close> where the \<open>if\<close> of \<open>update_color_limits\<close> asks for it. Lists are equal
  to lists and tuples to tuples when their items are equal; a list is never equal to a
  tuple. When either side is an array, \<open>==\<close> compares item by item and gives an array of
  two truth values, whose truth value numpy refuses with \<open>ValueError\<close>.
\<close>

datatype 'a params = PyList 'a 'a | PyTuple 'a 'a | PyArray 'a 'a

definition items :: "'a params \<Rightarrow> 'a \<times> 'a" where
  "items p = (case p of PyList a b \<Rightarrow> (a, b) | PyTuple a b \<Rightarrow> (a, b) | PyArray a b \<Rightarrow> (a, b))"

fun py_eq :: "'a params \<Rightarrow> 'a params \<Rightarrow> error + bool" where
  "py_eq (PyList a b) (PyList c d) = Inr (a = c \<and> b = d)"
| "py_eq (PyTuple a b) (PyTuple c d) = Inr (a = c \<and> b = d)"
| "py_eq (PyList a b) (PyTuple c d) = Inr False"
| "py_eq (PyTuple a b) (PyList c d) = Inr False"
| "py_eq (PyArray a b) q = Inl ValueError"
| "py_eq p (PyArray c d) = Inl ValueError"

text \<open>
  A limit function that reads its params reads their two items: \<open>_absolute_limit\<close> returns
  the params, and the view unpacks the two items of what it returns.
\<close>

definition on_items :: "('a ndarray \<Rightarrow> 'b \<times> 'b \<Rightarrow> 'r) \<Rightarrow> 'a ndarray \<Rightarrow> 'b params \<Rightarrow> 'r" where
  "on_items f im p = f im (items p)"

subsection \<open>The toolkit\<close>

text \<open>
  What an axis or an image artist holds after a call is decided by the toolkit, not by
  this code: matplotlib does not keep every pair it is given (it widens a pair of two
  equal values, for one). The answers of the toolkit are therefore a parameter of the
  methods that call it:
  \<^item> \<open>imshow_clim im\<close>, the colour limits of the image artist after \<open>imshow(im, ...)\<close> and
    \<open>fig.colorbar\<close>;
  \<^item> \<open>im_set_clim p\<close>, its colour limits after \<open>set_clim(p)\<close>;
  \<^item> \<open>ax_h_set_ylim p\<close>, the y-limits of the horizontal cut after \<open>set_ylim(*p)\<close>;
  \<^item> \<open>ax_v_set_xlim p\<close>, the x-limits of the vertical cut after \<open>set_xlim(*p)\<close>.
\<close>

record 'a toolkit =
  imshow_clim :: "'a ndarray \<Rightarrow> 'a \<times> 'a"
  im_set_clim :: "'a \<times> 'a \<Rightarrow> 'a \<times> 'a"
  ax_h_set_ylim :: "'a \<times> 'a \<Rightarrow> 'a \<times> 'a"
  ax_v_set_xlim :: "'a \<times> 'a \<Rightarrow> 'a \<times> 'a"

subsection \<open>Construction, methods and callbacks\<close>

text \<open>
  \<open>__init__\<close>, up to the request to draw that ends it. \<open>dd\<close> and \<open>stored_keys\<close> are the
  \<open>_data_dict\<close> and the \<open>_key_list\<close> that the parent's constructor stored; \<open>keys\<close> is the
  argument \<open>key_list\<close>, whose first key selects the initial image. \<open>limit_func\<close> and
  \<open>limit_args\<close> default to \<open>_full_range\<close> and \<open>[0, 100]\<close>. The limits of the first image are
  passed to \<open>set_ylim\<close> of the horizontal cut and to \<open>set_xlim\<close> of the vertical cut, in this
  order of the two values; \<open>set_clim\<close> is not called, the colour limits are those of
  \<open>imshow\<close>. An exception leaves no view.
\<close>

definition init ::
  "'a toolkit \<Rightarrow> (key \<rightharpoonup> 'a ndarray) \<Rightarrow> key list \<Rightarrow> key list
     \<Rightarrow> ('a ndarray \<Rightarrow> 'a params \<Rightarrow> error + 'a \<times> 'a) option \<Rightarrow> 'a params option
     \<Rightarrow> error + ('a::{linorder, zero, numeral}, 'a params) view" where
  "init tk dd stored_keys keys limit_func_arg limit_args_arg =
     (let lf = (case limit_func_arg of None \<Rightarrow> full_range | Some f \<Rightarrow> f);
          la = (case limit_args_arg of None \<Rightarrow> PyList 0 100 | Some a \<Rightarrow> a)
      in case getitem keys 0 of
           Inl e \<Rightarrow> Inl e
         | Inr k \<Rightarrow>
            (case dd k of
               None \<Rightarrow> Inl KeyError
             | Some init_image \<Rightarrow>
                (case lf init_image la of
                   Inl e \<Rightarrow> Inl e
                 | Inr vlim \<Rightarrow>
                     Inr \<lparr> data_dict = dd, key_list = stored_keys,
                           limit_func = lf, limit_args = la,
                           active = True, cur_active = True,
                           imdata = init_image, im_array = init_image,
                           im_clim = Some (imshow_clim tk init_image),
                           ax_h_ylim = ax_h_set_ylim tk vlim,
                           ax_v_xlim = ax_v_set_xlim tk vlim,
                           ln_h_ydata = replicate (snd (shape init_image)) 0,
                           ln_v_xdata = replicate (fst (shape init_image)) 0,
                           ln_h_visible = False, ln_v_visible = False,
                           ax_h_bk = None, ax_v_bk = None,
                           row = None, col = None,
                           vmin = None, vmax = None,
                           canvas = [] \<rparr>)))"

text \<open>
  \<open>clear(event)\<close>, the handler of the toolkit's draw event; \<open>bk_v\<close> and \<open>bk_h\<close> are the
  snapshots that \<open>copy_from_bbox\<close> returns for the two side panels.
\<close>

definition clear :: "snapshot \<Rightarrow> snapshot \<Rightarrow> ('a, 'p) view \<Rightarrow> outcome \<times> ('a, 'p) view" where
  "clear bk_v bk_h v =
     (Returned, v\<lparr>ax_v_bk := Some bk_v, ax_h_bk := Some bk_h,
                  ln_h_visible := False, ln_v_visible := False\<rparr>)"

text \<open>The setter of the property \<open>active\<close>.\<close>

definition set_active :: "bool \<Rightarrow> ('a, 'p) view \<Rightarrow> ('a, 'p) view" where
  "set_active val v = v\<lparr>active := val, cur_active := val\<rparr>"

text \<open>\<open>update_image(img_idx)\<close>: \<open>self._imdata = self._data_dict[self._key_list[img_idx]]\<close>.\<close>

definition update_image :: "int \<Rightarrow> ('a, 'p) view \<Rightarrow> outcome \<times> ('a, 'p) view" where
  "update_image img_idx v =
     (case getitem (key_list v) img_idx of
        Inl e \<Rightarrow> (Raised e, v)
      | Inr k \<Rightarrow>
         (case data_dict v k of
            None \<Rightarrow> (Raised KeyError, v)
          | Some d \<Rightarrow> (Returned, v\<lparr>imdata := d\<rparr>)))"

text \<open>
  \<open>update_color_limits(new_limits, force_update)\<close>. With \<open>force_update\<close> the comparison of
  line 348 is not made. The new params are stored before the limit function is called, so
  they stay stored when it raises. The vertical cut is given the reversed pair.
\<close>

definition update_color_limits ::
  "'a toolkit \<Rightarrow> 'a params \<Rightarrow> bool \<Rightarrow> ('a, 'a params) view
     \<Rightarrow> outcome \<times> ('a, 'a params) view" where
  "update_color_limits tk new_limits force_update v =
     (case (if force_update then Inr False else py_eq (limit_args v) new_limits) of
        Inl e \<Rightarrow> (Raised e, v)
      | Inr True \<Rightarrow> (Returned, v)
      | Inr False \<Rightarrow>
          (let v1 = v\<lparr>limit_args := new_limits\<rparr>
           in case limit_func v1 (imdata v1) (limit_args v1) of
                Inl e \<Rightarrow> (Raised e, v1)
              | Inr vlim \<Rightarrow>
                  (Returned, v1\<lparr>im_clim := Some (im_set_clim tk vlim),
                                ax_v_xlim := ax_v_set_xlim tk (reversed vlim),
                                ax_h_ylim := ax_h_set_ylim tk vlim\<rparr>)))"

text \<open>\<open>set_limit_func(limit_func, new_limits)\<close>.\<close>

definition set_limit_func ::
  "'a toolkit \<Rightarrow> ('a ndarray \<Rightarrow> 'a params \<Rightarrow> error + 'a \<times> 'a) \<Rightarrow> 'a params
     \<Rightarrow> ('a, 'a params) view \<Rightarrow> outcome \<times> ('a, 'a params) view" where
  "set_limit_func tk f new_limits v =
     update_color_limits tk new_limits True (v\<lparr>limit_func := f\<rparr>)"

text \<open>\<open>replot()\<close>.\<close>

definition replot :: "'a toolkit \<Rightarrow> ('a, 'a params) view \<Rightarrow> outcome \<times> ('a, 'a params) view" where
  "replot tk v =
     (case limit_func v (imdata v) (limit_args v) of
        Inl e \<Rightarrow> (Raised e, v)
      | Inr (lo, hi) \<Rightarrow>
          (let v1 = v\<lparr>vmin := Some lo, vmax := Some hi\<rparr>;
               v2 = v1\<lparr>ax_v_xlim := ax_v_set_xlim tk (lo, hi)\<rparr>;
               v3 = v2\<lparr>ax_h_ylim := ax_h_set_ylim tk (lo, hi)\<rparr>;
               v4 = v3\<lparr>im_array := imdata v3\<rparr>
           in update_color_limits tk (limit_args v4) True v4))"

text \<open>
  \<open>move_cb(event)\<close>, the handler of mouse motion. The loop over the two side panels is
  written out: the horizontal cut (the row under the cursor) first, then the vertical one
  (the column).
\<close>

definition move_cb :: "event \<Rightarrow> ('a, 'p) view \<Rightarrow> outcome \<times> ('a, 'p) view" where
  "move_cb ev v =
     (if \<not> active v then (Returned, v)
      else if inaxes ev \<noteq> Some Im_ax then (Returned, v)
      else
        (case shape (imdata v) of (numrows, numcols) \<Rightarrow>
           (case (xdata ev, ydata ev) of
              (Some x, Some y) \<Rightarrow>
                (let v1 = v\<lparr>ln_h_visible := True, ln_v_visible := True\<rparr>;
                     c = py_int (x + 0.5);
                     r = py_int (y + 0.5)
                 in if Some r \<noteq> row v1 \<or> Some c \<noteq> col v1 then
                      (if 0 \<le> c \<and> c < int numcols \<and> 0 \<le> r \<and> r < int numrows then
                         (Returned,
                          v1\<lparr>col := Some c, row := Some r,
                             ln_h_ydata := imdata v1 ! nat r,
                             ln_v_xdata := map (\<lambda>line. line ! nat c) (imdata v1),
                             canvas := canvas v1
                               @ [Restore_region (ax_h_bk v1), Draw_artist Ax_h Ln_h, Blit Ax_h,
                                  Restore_region (ax_v_bk v1), Draw_artist Ax_v Ln_v, Blit Ax_v]\<rparr>)
                       else (Returned, v1))
                    else (Returned, v1))
            | _ \<Rightarrow> (Returned, v))))"

text \<open>\<open>click_cb(event)\<close>, the handler of a button press.\<close>

definition click_cb :: "event \<Rightarrow> ('a, 'p) view \<Rightarrow> outcome \<times> ('a, 'p) view" where
  "click_cb ev v =
     (if inaxes ev \<noteq> Some Im_ax then (Returned, v)
      else
        (let v1 = set_active (\<not> active v) v
         in if active v1 then move_cb ev (v1\<lparr>canvas := canvas v1 @ [Cursor_onmove ev]\<rparr>)
            else (Returned, v1)))"

subsection \<open>The side panels and the limit function\<close>

text \<open>
  The specification's words: the axis ranges of the two side panels (the x-limits of the
  vertical cut, the y-limits of the horizontal cut) equal the pair that the current limit
  function gives for the current image and the current params.
\<close>

definition side_panels_match :: "('a, 'p) view \<Rightarrow> bool" where
  "side_panels_match v =
     (case limit_func v (imdata v) (limit_args v) of
        Inl e \<Rightarrow> False
      | Inr vlim \<Rightarrow> ax_v_xlim v = vlim \<and> ax_h_ylim v = vlim)"

text \<open>The same for the horizontal cut alone.\<close>

definition horizontal_cut_matches :: "('a, 'p) view \<Rightarrow> bool" where
  "horizontal_cut_matches v =
     (case limit_func v (imdata v) (limit_args v) of
        Inl e \<Rightarrow> False
      | Inr vlim \<Rightarrow> ax_h_ylim v = vlim)"

text \<open>
  The toolkit keeps a pair when an axis that is given the pair holds the pair: for the
  current limits of a view, on the horizontal cut and on both cuts.
\<close>

definition ylim_kept :: "'a toolkit \<Rightarrow> ('a, 'p) view \<Rightarrow> bool" where
  "ylim_kept tk v =
     (case limit_func v (imdata v) (limit_args v) of
        Inl e \<Rightarrow> False
      | Inr vlim \<Rightarrow> ax_h_set_ylim tk vlim = vlim)"

definition limits_kept :: "'a toolkit \<Rightarrow> ('a, 'p) view \<Rightarrow> bool" where
  "limits_kept tk v =
     (case limit_func v (imdata v) (limit_args v) of
        Inl e \<Rightarrow> False
      | Inr vlim \<Rightarrow> ax_h_set_ylim tk vlim = vlim \<and> ax_v_set_xlim tk vlim = vlim)"

subsection \<open>A toolkit and a view with two images\<close>

text \<open>
  A toolkit for the examples. It answers as matplotlib does where the examples call it. A
  pair of two different values is kept. A pair of two equal values is widened around the
  value by a fraction of it, as \<open>matplotlib.transforms.nonsingular\<close> does: by a twentieth
  for an axis range, by a tenth for the colour limits of an image with a colorbar, so that
  \<open>(100, 100)\<close> becomes \<open>(95, 105)\<close> and \<open>(90, 110)\<close>. \<open>imshow\<close> scales the colours to the full
  range of the image. The theorems of the view hold for every toolkit.
\<close>

definition widened :: "real \<Rightarrow> real \<times> real \<Rightarrow> real \<times> real" where
  "widened expander p =
     (case p of (lo, hi) \<Rightarrow>
        if lo \<noteq> hi then (lo, hi)
        else if lo = 0 then (- expander, expander)
        else (lo - expander * \<bar>lo\<bar>, hi + expander * \<bar>hi\<bar>))"

definition example_toolkit :: "real toolkit" where
  "example_toolkit =
     \<lparr> imshow_clim =
         (\<lambda>im. case full_range im () of Inl e \<Rightarrow> (0, 1) | Inr p \<Rightarrow> widened (1 / 10) p),
       im_set_clim = widened (1 / 10),
       ax_h_set_ylim = widened (1 / 20),
       ax_v_set_xlim = widened (1 / 20) \<rparr>"

definition example_images :: "key \<rightharpoonup> real ndarray" where
  "example_images = [''a'' \<mapsto> [[1, 2], [3, 4]], ''b'' \<mapsto> [[5, 6, 7], [8, 9, 10]]]"

definition example_view :: "(real, real params) view" where
  "example_view =
     \<lparr> data_dict = example_images, key_list = [''a'', ''b''],
       limit_func = full_range, limit_args = PyList 0 100,
       active = True, cur_active = True,
       imdata = [[1, 2], [3, 4]], im_array = [[1, 2], [3, 4]], im_clim = Some (1, 4),
       ax_h_ylim = (1, 4), ax_v_xlim = (1, 4),
       ln_h_ydata = [0, 0], ln_v_xdata = [0, 0],
       ln_h_visible = False, ln_v_visible = False,
       ax_h_bk = None, ax_v_bk = None,
       row = None, col = None, vmin = None, vmax = None,
       canvas = [] \<rparr>"

text \<open>The example view with its params held as a numpy array.\<close>

definition example_view_array :: "(real, real params) view" where
  "example_view_array = example_view\<lparr>limit_args := PyArray 0 100\<rparr>"

text \<open>The view that the construction gives for one image of four equal values.\<close>

definition constant_images :: "key \<rightharpoonup> real ndarray" where
  "constant_images = [''c'' \<mapsto> [[100, 100], [100, 100]]]"

definition constant_view :: "(real, real params) view" where
  "constant_view =
     \<lparr> data_dict = constant_images, key_list = [''c''],
       limit_func = full_range, limit_args = PyList 0 100,
       active = True, cur_active = True,
       imdata = [[100, 100], [100, 100]], im_array = [[100, 100], [100, 100]],
       im_clim = Some (90, 110),
       ax_h_ylim = (95, 105), ax_v_xlim = (95, 105),
       ln_h_ydata = [0, 0], ln_v_xdata = [0, 0],
       ln_h_visible = False, ln_v_visible = False,
       ax_h_bk = None, ax_v_bk = None,
       row = None, col = None, vmin = None, vmax = None,
       canvas = [] \<rparr>"

subsection \<open>A cursor outside the image\<close>

text \<open>
  The specification's words: the cursor coordinates of the event map to a \<open>(row, col)\<close>
  outside the bounds of the current image (\<open>row < 0\<close>, \<open>row >= numrows\<close>, \<open>col < 0\<close> or
  \<open>col >= numcols\<close>).
\<close>

definition cursor_outside :: "event \<Rightarrow> ('a, 'p) view \<Rightarrow> bool" where
  "cursor_outside ev v =
     (case (xdata ev, ydata ev) of
        (Some x, Some y) \<Rightarrow>
          (let c = py_int (x + 0.5); r = py_int (y + 0.5)
           in r < 0 \<or> int (fst (shape (imdata v))) \<le> r
              \<or> c < 0 \<or> int (snd (shape (imdata v))) \<le> c)
      | _ \<Rightarrow> False)"

text \<open>An event inside the main image axes, four columns to the left of the image.\<close>

definition outside_event :: event where
  "outside_event = \<lparr>inaxes = Some Im_ax, xdata = Some (-5), ydata = Some 0\<rparr>"

section \<open>Properties of the limit functions\<close>

lemma np_min_Min:
  "concat im \<noteq> [] \<Longrightarrow> np_min im = Inr (Min (set (concat im)))"
  by (cases "concat im") (simp_all add: np_min_def Min.set_eq_fold [symmetric])

lemma np_max_Max:
  "concat im \<noteq> [] \<Longrightarrow> np_max im = Inr (Max (set (concat im)))"
  by (cases "concat im") (simp_all add: np_max_def Max.set_eq_fold [symmetric])

lemma full_range_Min_Max:
  "concat im \<noteq> [] \<Longrightarrow>
     full_range im args = Inr (Min (set (concat im)), Max (set (concat im)))"
  by (simp add: full_range_def np_min_Min np_max_Max)

lemma full_range_empty: "concat im = [] \<Longrightarrow> full_range im args = Inl ValueError"
  by (simp add: full_range_def np_min_def del: concat_eq_Nil_conv)

text \<open>
  C3. On an image with at least one element \<open>_full_range\<close> returns a pair \<open>(lo, hi)\<close> of
  elements of the image such that every element lies between \<open>lo\<close> and \<open>hi\<close>: the minimum
  and the maximum of the image. Any other value of \<open>limit_args\<close>, of whatever type, gives the
  same pair.
\<close>

theorem full_range_is_min_max:
  assumes "concat im \<noteq> []"
  shows "\<exists>lo hi. full_range im args = Inr (lo, hi)
           \<and> lo \<in> set (concat im) \<and> hi \<in> set (concat im)
           \<and> (\<forall>x \<in> set (concat im). lo \<le> x \<and> x \<le> hi)
           \<and> full_range im other_args = Inr (lo, hi)"
proof -
  let ?S = "set (concat im)"
  have fin: "finite ?S" and ne: "?S \<noteq> {}"
    using assms by simp_all
  have lo: "Min ?S \<in> ?S"
    by (rule Min_in [OF fin ne])
  have hi: "Max ?S \<in> ?S"
    by (rule Max_in [OF fin ne])
  have bounds: "\<forall>x \<in> ?S. Min ?S \<le> x \<and> x \<le> Max ?S"
    using fin by simp
  have "full_range im args = Inr (Min ?S, Max ?S)
          \<and> Min ?S \<in> ?S \<and> Max ?S \<in> ?S
          \<and> (\<forall>x \<in> ?S. Min ?S \<le> x \<and> x \<le> Max ?S)
          \<and> full_range im other_args = Inr (Min ?S, Max ?S)"
    using lo hi bounds full_range_Min_Max [OF assms, of args]
      full_range_Min_Max [OF assms, of other_args]
    by (simp only: simp_thms)
  then show ?thesis
    by (intro exI)
qed

theorem full_range_is_min_max_witness:
  "full_range [[3, 1, 2], [5, 0, 4 :: int]] ''ignored'' = Inr (0, 5)
   \<and> full_range [[3, 1, 2], [5, 0, 4 :: int]] (7 :: nat) = Inr (0, 5)"
proof -
  have ne: "concat [[3, 1, 2], [5, 0, 4 :: int]] \<noteq> []"
    by simp
  obtain lo hi where r: "full_range [[3, 1, 2], [5, 0, 4 :: int]] ''ignored'' = Inr (lo, hi)"
    and o: "full_range [[3, 1, 2], [5, 0, 4 :: int]] (7 :: nat) = Inr (lo, hi)"
    using full_range_is_min_max [OF ne, of "''ignored''" "7 :: nat"] by blast
  have "full_range [[3, 1, 2], [5, 0, 4 :: int]] ''ignored'' = Inr (0, 5)"
    by (simp add: full_range_def np_min_def np_max_def)
  with r o show ?thesis by simp
qed

text \<open>
  C4. \<open>_absolute_limit\<close> returns the pair it is given, whatever the image.
\<close>

theorem absolute_limit_returns_args:
  "absolute_limit im1 (a, b) = Inr (a, b) \<and> absolute_limit im2 (a, b) = Inr (a, b)"
  by (simp add: absolute_limit_def)

section \<open>Properties of the view\<close>

lemma full_range_example: "full_range [[1, 2], [3, 4 :: real]] q = Inr (1, 4)"
  by (simp add: full_range_def np_min_def np_max_def)

lemma full_range_example_b: "full_range [[5, 6, 7], [8, 9, 10 :: real]] q = Inr (5, 10)"
  by (simp add: full_range_def np_min_def np_max_def)

lemma full_range_constant: "full_range [[100, 100], [100, 100 :: real]] q = Inr (100, 100)"
  by (simp add: full_range_def np_min_def np_max_def)

text \<open>The example views are those that the construction gives with the example toolkit.\<close>

lemma init_example:
  "init example_toolkit example_images [''a'', ''b''] [''a'', ''b''] None None
   = Inr example_view"
  by (simp add: init_def getitem_def example_images_def example_view_def full_range_example
      shape_def example_toolkit_def widened_def)

lemma init_example_array:
  "init example_toolkit example_images [''a'', ''b''] [''a'', ''b''] None (Some (PyArray 0 100))
   = Inr example_view_array"
  by (simp add: init_def getitem_def example_images_def example_view_def example_view_array_def
      full_range_example shape_def example_toolkit_def widened_def)

lemma init_constant:
  "init example_toolkit constant_images [''c''] [''c''] None None = Inr constant_view"
  by (simp add: init_def getitem_def constant_images_def constant_view_def full_range_constant
      shape_def example_toolkit_def widened_def)

subsection \<open>Unchanged params\<close>

text \<open>
  With params held as a list or as a tuple, the call without \<open>force_update\<close> on the stored
  params returns the view as it was.
\<close>

lemma update_color_limits_same_list_noop:
  assumes "limit_args v = PyList a b \<or> limit_args v = PyTuple a b"
  shows "update_color_limits tk (limit_args v) False v = (Returned, v)"
  using assms by (auto simp: update_color_limits_def)

text \<open>
  C8. The claim fails on the code when the params are held as a numpy array, the type that
  the docstring of \<open>_absolute_limit\<close> names: on the example view constructed with
  \<open>limit_args = numpy.array([0, 100])\<close>, the call
  \<open>update_color_limits(numpy.array([0, 100]), force_update=False)\<close> raises \<open>ValueError\<close>
  in the comparison of line 348, where the claim has it return. The view is unchanged.
\<close>

theorem update_color_limits_array_raises:
  "limit_args example_view_array = PyArray 0 100
   \<and> update_color_limits tk (PyArray 0 100) False example_view_array
       = (Raised ValueError, example_view_array)"
  by (simp add: update_color_limits_def example_view_array_def)

subsection \<open>Changing the image\<close>

text \<open>
  C9. \<open>update_image(img_idx)\<close> writes no field but the current image: putting the old image
  back gives the view before the call, whether the call returns or raises. When the
  \<open>img_idx\<close>-th key exists and has data, the call returns and the current image is that
  data.
\<close>

theorem update_image_frame:
  "(snd (update_image img_idx v))\<lparr>imdata := imdata v\<rparr> = v
   \<and> (\<forall>k d. getitem (key_list v) img_idx = Inr k \<longrightarrow> data_dict v k = Some d
          \<longrightarrow> update_image img_idx v = (Returned, v\<lparr>imdata := d\<rparr>))"
  by (simp add: update_image_def split: sum.splits option.splits)

theorem update_image_frame_witness:
  "update_image 1 example_view = (Returned, example_view\<lparr>imdata := [[5, 6, 7], [8, 9, 10]]\<rparr>)
   \<and> (snd (update_image 1 example_view))\<lparr>imdata := imdata example_view\<rparr> = example_view"
proof -
  have k: "getitem (key_list example_view) 1 = Inr ''b''"
    by (simp add: example_view_def getitem_def)
  have d: "data_dict example_view ''b'' = Some [[5, 6, 7], [8, 9, 10]]"
    by (simp add: example_view_def example_images_def)
  show ?thesis
    using update_image_frame [where img_idx = 1 and v = example_view] k d by blast
qed

subsection \<open>Changing the limit function\<close>

lemma absolute_example:
  "on_items absolute_limit im (PyTuple a b) = Inr (a, b)"
  "on_items absolute_limit im (PyList a b) = Inr (a, b)"
  by (simp_all add: on_items_def items_def absolute_limit_def)

text \<open>
  C6, as stated, fails on the example view: \<open>_absolute_limit\<close> gives \<open>(100, 100)\<close> for the
  params \<open>(100, 100)\<close>, and after \<open>set_limit_func\<close> the colour limits are \<open>(90, 110)\<close>, the pair
  that the toolkit makes of two equal values.
\<close>

theorem set_limit_func_counterexample:
  "on_items absolute_limit (imdata example_view) (PyTuple 100 100) = Inr (100, 100)
   \<and> fst (set_limit_func example_toolkit (on_items absolute_limit) (PyTuple 100 100)
            example_view) = Returned
   \<and> im_clim (snd (set_limit_func example_toolkit (on_items absolute_limit) (PyTuple 100 100)
                     example_view)) = Some (90, 110)
   \<and> im_clim (snd (set_limit_func example_toolkit (on_items absolute_limit) (PyTuple 100 100)
                     example_view)) \<noteq> Some (100, 100)"
  by (simp add: set_limit_func_def update_color_limits_def absolute_example Let_def
      example_toolkit_def widened_def)

text \<open>
  C6, amended. After \<open>set_limit_func(f, L)\<close> the stored limit function is \<open>f\<close> and the stored
  params are \<open>L\<close>, and the image is the same. When \<open>f\<close> returns a pair for the current image
  and \<open>L\<close>, the call returns and the colour limits are what the toolkit's \<open>set_clim\<close> makes
  of that pair, whether or not \<open>L\<close> equals the params stored before: the pair itself
  whenever the toolkit keeps it. When \<open>f\<close> raises, the call raises the same error and the
  colour limits stay.
\<close>

theorem set_limit_func_swaps:
  "limit_func (snd (set_limit_func tk f L v)) = f
   \<and> limit_args (snd (set_limit_func tk f L v)) = L
   \<and> imdata (snd (set_limit_func tk f L v)) = imdata v
   \<and> (\<forall>vlim. f (imdata v) L = Inr vlim \<longrightarrow>
         fst (set_limit_func tk f L v) = Returned
         \<and> im_clim (snd (set_limit_func tk f L v)) = Some (im_set_clim tk vlim)
         \<and> (im_set_clim tk vlim = vlim \<longrightarrow>
               im_clim (snd (set_limit_func tk f L v)) = Some vlim))
   \<and> (\<forall>e. f (imdata v) L = Inl e \<longrightarrow>
         fst (set_limit_func tk f L v) = Raised e
         \<and> im_clim (snd (set_limit_func tk f L v)) = im_clim v)"
  by (simp add: set_limit_func_def update_color_limits_def Let_def split: sum.splits)

theorem set_limit_func_swaps_witness:
  "limit_func (snd (set_limit_func example_toolkit (on_items absolute_limit) (PyList 0 100)
                      example_view)) = on_items absolute_limit
   \<and> limit_args (snd (set_limit_func example_toolkit (on_items absolute_limit) (PyList 0 100)
                        example_view)) = limit_args example_view
   \<and> fst (set_limit_func example_toolkit (on_items absolute_limit) (PyList 0 100)
            example_view) = Returned
   \<and> im_clim (snd (set_limit_func example_toolkit (on_items absolute_limit) (PyList 0 100)
                     example_view)) = Some (0, 100)
   \<and> im_clim example_view = Some (1, 4)"
proof -
  have "on_items absolute_limit (imdata example_view) (PyList 0 100) = Inr (0, 100 :: real)"
    by (rule absolute_example)
  moreover have "im_set_clim example_toolkit (0, 100) = (0, 100)"
    by (simp add: example_toolkit_def widened_def)
  moreover have "limit_args example_view = PyList 0 100" "im_clim example_view = Some (1, 4)"
    by (simp_all add: example_view_def)
  ultimately show ?thesis
    using set_limit_func_swaps
      [where tk = example_toolkit and f = "on_items absolute_limit" and L = "PyList 0 100"
         and v = example_view]
    by simp
qed

subsection \<open>Clicks\<close>

lemma move_cb_active:
  "active (snd (move_cb ev v)) = active v \<and> cur_active (snd (move_cb ev v)) = cur_active v"
  by (simp add: move_cb_def Let_def split: prod.splits option.splits)

text \<open>
  C10. A button press inside the main image axes negates the active flag, and the cursor's
  flag equals the view's flag afterwards. Assigning \<open>val\<close> to the property \<open>active\<close> sets both
  flags to \<open>val\<close>. While the view is inactive, a mouse move returns the view as it was.
\<close>

theorem click_toggles_active:
  "(inaxes ev = Some Im_ax \<longrightarrow>
      active (snd (click_cb ev v)) = (\<not> active v)
      \<and> cur_active (snd (click_cb ev v)) = active (snd (click_cb ev v)))
   \<and> active (set_active val v) = val \<and> cur_active (set_active val v) = val
   \<and> (\<not> active v \<longrightarrow> move_cb ev v = (Returned, v))"
proof -
  have "active (snd (click_cb ev v)) = (\<not> active v)
        \<and> cur_active (snd (click_cb ev v)) = active (snd (click_cb ev v))"
    if "inaxes ev = Some Im_ax"
    using that by (simp add: click_cb_def Let_def move_cb_active set_active_def)
  moreover have "\<not> active v \<longrightarrow> move_cb ev v = (Returned, v)"
    by (simp add: move_cb_def)
  ultimately show ?thesis
    by (simp add: set_active_def)
qed

theorem click_toggles_active_witness:
  "active example_view
   \<and> \<not> active (snd (click_cb \<lparr>inaxes = Some Im_ax, xdata = Some 1, ydata = Some 0\<rparr>
                      example_view))
   \<and> \<not> cur_active (snd (click_cb \<lparr>inaxes = Some Im_ax, xdata = Some 1, ydata = Some 0\<rparr>
                          example_view))
   \<and> move_cb \<lparr>inaxes = Some Im_ax, xdata = Some 1, ydata = Some 0\<rparr>
        (set_active False example_view)
       = (Returned, set_active False example_view)"
proof -
  let ?ev = "\<lparr>inaxes = Some Im_ax, xdata = Some 1, ydata = Some 0\<rparr>"
  have a: "active example_view"
    by (simp add: example_view_def)
  have i: "inaxes ?ev = Some Im_ax"
    by simp
  have "active (set_active False example_view) = False"
    using click_toggles_active [where val = False and v = example_view] by blast
  then have "move_cb ?ev (set_active False example_view)
             = (Returned, set_active False example_view)"
    using click_toggles_active [where ev = ?ev and v = "set_active False example_view"]
    by blast
  then show ?thesis
    using a i click_toggles_active [where ev = ?ev and v = example_view] by simp
qed

subsection \<open>Mouse moves outside the image\<close>

text \<open>
  C2. For a mouse move whose coordinates map outside the image the handler returns without
  an error. It updates neither the stashed \<open>(row, col)\<close> nor the data of the two cut lines,
  and the view state of the specification is as it was: the current image, the limit
  function and params, the active flag and the two snapshots. Every field other than the
  visibility of the two line artists is unchanged.
\<close>

theorem move_cb_outside_frame:
  assumes "cursor_outside ev v"
  shows "fst (move_cb ev v) = Returned
         \<and> row (snd (move_cb ev v)) = row v \<and> col (snd (move_cb ev v)) = col v
         \<and> ln_h_ydata (snd (move_cb ev v)) = ln_h_ydata v
         \<and> ln_v_xdata (snd (move_cb ev v)) = ln_v_xdata v
         \<and> imdata (snd (move_cb ev v)) = imdata v
         \<and> limit_func (snd (move_cb ev v)) = limit_func v
         \<and> limit_args (snd (move_cb ev v)) = limit_args v
         \<and> active (snd (move_cb ev v)) = active v
         \<and> ax_h_bk (snd (move_cb ev v)) = ax_h_bk v
         \<and> ax_v_bk (snd (move_cb ev v)) = ax_v_bk v
         \<and> (snd (move_cb ev v))\<lparr>ln_h_visible := ln_h_visible v,
                                   ln_v_visible := ln_v_visible v\<rparr> = v"
proof -
  obtain x y where xy: "xdata ev = Some x" "ydata ev = Some y"
    using assms by (auto simp: cursor_outside_def split: option.splits)
  let ?c = "py_int (x + 0.5)" and ?r = "py_int (y + 0.5)"
  have out: "\<not> (0 \<le> ?c \<and> ?c < int (snd (shape (imdata v)))
                \<and> 0 \<le> ?r \<and> ?r < int (fst (shape (imdata v))))"
    using assms xy by (auto simp: cursor_outside_def Let_def)
  show ?thesis
  proof (cases "active v \<and> inaxes ev = Some Im_ax")
    case True
    then have "move_cb ev v = (Returned, v\<lparr>ln_h_visible := True, ln_v_visible := True\<rparr>)"
      using xy out by (cases "shape (imdata v)") (auto simp: move_cb_def Let_def)
    then show ?thesis by simp
  next
    case False
    then have "move_cb ev v = (Returned, v)"
      by (auto simp: move_cb_def)
    then show ?thesis by simp
  qed
qed

theorem move_cb_outside_frame_witness:
  "cursor_outside outside_event example_view
   \<and> fst (move_cb outside_event example_view) = Returned
   \<and> row (snd (move_cb outside_event example_view)) = None
   \<and> col (snd (move_cb outside_event example_view)) = None
   \<and> ln_h_ydata (snd (move_cb outside_event example_view)) = [0, 0]
   \<and> ln_v_xdata (snd (move_cb outside_event example_view)) = [0, 0]
   \<and> imdata (snd (move_cb outside_event example_view)) = [[1, 2], [3, 4]]
   \<and> active (snd (move_cb outside_event example_view))"
proof -
  have o: "cursor_outside outside_event example_view"
    by (simp add: cursor_outside_def outside_event_def example_view_def py_int_def shape_def)
  have "row example_view = None" "col example_view = None"
    "ln_h_ydata example_view = [0, 0]" "ln_v_xdata example_view = [0, 0]"
    "imdata example_view = [[1, 2], [3, 4]]" "active example_view"
    by (simp_all add: example_view_def)
  then show ?thesis
    using o move_cb_outside_frame [OF o] by simp
qed

subsection \<open>The axis ranges of the side panels\<close>

lemma replot_example:
  "replot example_toolkit example_view
   = (Returned, example_view\<lparr>vmin := Some 1, vmax := Some 4, ax_v_xlim := (4, 1)\<rparr>)"
  by (simp add: replot_def update_color_limits_def example_view_def full_range_example
      reversed_def Let_def example_toolkit_def widened_def)

lemma update_image_example:
  "update_image 1 example_view = (Returned, example_view\<lparr>imdata := [[5, 6, 7], [8, 9, 10]]\<rparr>)"
  by (simp add: update_image_def example_view_def example_images_def getitem_def)

text \<open>
  C1, as stated, fails in three ways. On the view that the construction gives for the
  example images, \<open>update_image(1)\<close> leaves the axis ranges at those of the first image,
  \<open>(1, 4)\<close>, while the limit function gives \<open>(5, 10)\<close> for the current one; and after \<open>replot()\<close>
  the x-limits of the vertical cut are \<open>(4, 1)\<close>. On the view that the construction gives for
  an image of equal values, the limit function gives \<open>(100, 100)\<close> and both axis ranges are
  \<open>(95, 105)\<close>.
\<close>

theorem side_panels_match_counterexample:
  "init example_toolkit example_images [''a'', ''b''] [''a'', ''b''] None None
     = Inr example_view
   \<and> side_panels_match example_view
   \<and> fst (update_image 1 example_view) = Returned
   \<and> \<not> side_panels_match (snd (update_image 1 example_view))
   \<and> fst (replot example_toolkit example_view) = Returned
   \<and> \<not> side_panels_match (snd (replot example_toolkit example_view))
   \<and> init example_toolkit constant_images [''c''] [''c''] None None = Inr constant_view
   \<and> \<not> side_panels_match constant_view"
  by (simp add: init_example init_constant replot_example update_image_example)
     (simp add: side_panels_match_def example_view_def constant_view_def full_range_example
        full_range_example_b full_range_constant)

lemma init_sets:
  assumes "init tk dd stored_keys keys lf la = Inr v"
  shows "\<exists>vlim. limit_func v (imdata v) (limit_args v) = Inr vlim
           \<and> ax_h_ylim v = ax_h_set_ylim tk vlim \<and> ax_v_xlim v = ax_v_set_xlim tk vlim"
  using assms
  by (auto simp: init_def Let_def split: sum.splits option.splits)

lemma init_match:
  assumes "init tk dd stored_keys keys lf la = Inr v" "limits_kept tk v"
  shows "side_panels_match v"
  using init_sets [OF assms(1)] assms(2)
  by (auto simp: limits_kept_def side_panels_match_def)

lemma update_color_limits_sets:
  assumes "update_color_limits tk L force v = (Returned, v')"
    and "force \<or> py_eq (limit_args v) L = Inr False"
  shows "\<exists>vlim. limit_func v' (imdata v') (limit_args v') = Inr vlim
           \<and> ax_h_ylim v' = ax_h_set_ylim tk vlim"
  using assms
  by (auto simp: update_color_limits_def Let_def split: sum.splits if_splits)

lemma update_color_limits_horizontal:
  assumes "update_color_limits tk L force v = (Returned, v')"
    and "force \<or> py_eq (limit_args v) L = Inr False"
    and "ylim_kept tk v'"
  shows "horizontal_cut_matches v'"
  using update_color_limits_sets [OF assms(1,2)] assms(3)
  by (auto simp: ylim_kept_def horizontal_cut_matches_def)

lemma replot_horizontal:
  assumes "replot tk v = (Returned, v')" "ylim_kept tk v'"
  shows "horizontal_cut_matches v'"
proof -
  obtain lo hi where lim: "limit_func v (imdata v) (limit_args v) = Inr (lo, hi)"
    using assms(1) by (auto simp: replot_def split: sum.splits)
  let ?v4 = "v\<lparr>vmin := Some lo, vmax := Some hi, ax_v_xlim := ax_v_set_xlim tk (lo, hi),
               ax_h_ylim := ax_h_set_ylim tk (lo, hi), im_array := imdata v\<rparr>"
  have u: "update_color_limits tk (limit_args ?v4) True ?v4 = (Returned, v')"
    using assms(1) lim by (simp add: replot_def Let_def)
  show ?thesis
    by (rule update_color_limits_horizontal [OF u _ assms(2)]) simp
qed

lemma update_image_axes:
  "ax_v_xlim (snd (update_image i v)) = ax_v_xlim v
   \<and> ax_h_ylim (snd (update_image i v)) = ax_h_ylim v"
  by (simp add: update_image_def split: sum.splits option.splits)

text \<open>
  C1, amended. Let \<open>(low, high)\<close> be the pair that the current limit function gives for the
  current image and the current params. After the construction the x-limits of the
  vertical cut and the y-limits of the horizontal cut equal \<open>(low, high)\<close>, whenever the
  toolkit keeps that pair on both axes. After each \<open>replot\<close>, each \<open>set_limit_func\<close> and each
  \<open>update_color_limits\<close> that is forced or is given params that compare unequal to the
  stored ones, when the call returns, the y-limits of the horizontal cut equal
  \<open>(low, high)\<close>, whenever the toolkit keeps that pair on this axis. \<open>update_image\<close> leaves
  both ranges as they were.
\<close>

theorem side_panels_after_operations:
  "(init tk dd stored_keys keys lf la = Inr v0 \<longrightarrow> limits_kept tk v0
      \<longrightarrow> side_panels_match v0)
   \<and> (replot tk v = (Returned, v1) \<longrightarrow> ylim_kept tk v1 \<longrightarrow> horizontal_cut_matches v1)
   \<and> (set_limit_func tk f L v = (Returned, v2) \<longrightarrow> ylim_kept tk v2
         \<longrightarrow> horizontal_cut_matches v2)
   \<and> (update_color_limits tk L force v = (Returned, v3)
         \<longrightarrow> force \<or> py_eq (limit_args v) L = Inr False
         \<longrightarrow> ylim_kept tk v3 \<longrightarrow> horizontal_cut_matches v3)
   \<and> ax_v_xlim (snd (update_image i v)) = ax_v_xlim v
   \<and> ax_h_ylim (snd (update_image i v)) = ax_h_ylim v"
proof -
  have a: "side_panels_match v0"
    if "init tk dd stored_keys keys lf la = Inr v0" "limits_kept tk v0"
    using that by (rule init_match)
  have b: "horizontal_cut_matches v1" if "replot tk v = (Returned, v1)" "ylim_kept tk v1"
    using that by (rule replot_horizontal)
  have c: "horizontal_cut_matches v2"
    if s: "set_limit_func tk f L v = (Returned, v2)" and k: "ylim_kept tk v2"
    by (rule update_color_limits_horizontal [OF s [unfolded set_limit_func_def] _ k]) simp
  have d: "horizontal_cut_matches v3"
    if "update_color_limits tk L force v = (Returned, v3)"
      "force \<or> py_eq (limit_args v) L = Inr False" "ylim_kept tk v3"
    using that by (rule update_color_limits_horizontal)
  show ?thesis
    using a b c d update_image_axes [of i v] by blast
qed

theorem side_panels_after_operations_witness:
  "side_panels_match example_view
   \<and> horizontal_cut_matches (snd (replot example_toolkit example_view))
   \<and> horizontal_cut_matches
        (snd (set_limit_func example_toolkit (on_items absolute_limit) (PyTuple 2 3)
                example_view))
   \<and> horizontal_cut_matches
        (snd (update_color_limits example_toolkit (PyTuple 2 3) False example_view))
   \<and> ax_v_xlim (snd (update_image 1 example_view)) = (1, 4)
   \<and> ax_h_ylim (snd (update_image 1 example_view)) = (1, 4)"
proof -
  let ?r = "snd (replot example_toolkit example_view)"
  let ?s = "snd (set_limit_func example_toolkit (on_items absolute_limit) (PyTuple 2 3)
                   example_view)"
  let ?u = "snd (update_color_limits example_toolkit (PyTuple 2 3) False example_view)"
  have a: "init example_toolkit example_images [''a'', ''b''] [''a'', ''b''] None None
           = Inr example_view"
    by (rule init_example)
  have a': "limits_kept example_toolkit example_view"
    by (simp add: limits_kept_def example_view_def full_range_example example_toolkit_def
        widened_def)
  have b: "replot example_toolkit example_view = (Returned, ?r)"
    by (simp add: replot_example)
  have b': "ylim_kept example_toolkit ?r"
    by (simp add: replot_example)
       (simp add: ylim_kept_def example_view_def full_range_example example_toolkit_def
          widened_def)
  have c: "set_limit_func example_toolkit (on_items absolute_limit) (PyTuple 2 3) example_view
           = (Returned, ?s)"
    by (simp add: set_limit_func_def update_color_limits_def absolute_example Let_def)
  have c': "ylim_kept example_toolkit ?s"
    by (simp add: set_limit_func_def update_color_limits_def absolute_example Let_def
        ylim_kept_def example_toolkit_def widened_def)
  have d: "update_color_limits example_toolkit (PyTuple 2 3) False example_view
           = (Returned, ?u)"
    by (simp add: update_color_limits_def example_view_def full_range_example Let_def)
  have d': "ylim_kept example_toolkit ?u"
    by (simp add: update_color_limits_def example_view_def full_range_example Let_def
        ylim_kept_def example_toolkit_def widened_def)
  have e: "py_eq (limit_args example_view) (PyTuple 2 3) = Inr False"
    by (simp add: example_view_def)
  have f: "ax_v_xlim example_view = (1, 4)" "ax_h_ylim example_view = (1, 4)"
    by (simp_all add: example_view_def)
  show ?thesis
    using a a' b b' c c' d d' e f
      side_panels_after_operations
        [where tk = example_toolkit and dd = example_images
           and stored_keys = "[''a'', ''b'']" and keys = "[''a'', ''b'']"
           and lf = None and la = None
           and ?v0.0 = example_view and v = example_view and ?v1.0 = ?r
           and f = "on_items absolute_limit" and L = "PyTuple 2 3" and ?v2.0 = ?s
           and force = False and ?v3.0 = ?u and i = 1]
    by simp
qed

end
